theory Spec2Isabelle
  imports Complex_Main "HOL-Library.Multiset"
begin

section \<open>The persistent store\<close>

text \<open>
  The server keeps three SQLite tables. A table is the list of its rows in rowid order,
  the order of a table scan. A nullable column is an \<open>option\<close>; \<open>content\<close> is
  declared \<open>NOT NULL\<close>, and \<open>status\<close> and \<open>created_at\<close> are never supplied by
  an \<open>INSERT\<close> of the program, so they always hold their default.
  \<open>CURRENT_TIMESTAMP\<close> has a resolution of one second: \<open>created_at\<close> is the number
  of whole seconds since the epoch, which orders as the text SQLite stores does.
\<close>

datatype role = customer | friend

record user_row =
  u_id :: int
  u_name :: string
  u_email :: string
  u_role :: role
  u_city :: "string option"
  u_age :: "int option"
  u_languages :: "string option"
  u_interests :: "string option"
  u_about :: "string option"
  u_hourly_rate :: "int option"
  u_verified :: "int option"
  u_rating :: "real option"

record booking_row =
  b_id :: int
  b_customer_id :: "int option"
  b_friend_id :: "int option"
  b_activity :: "string option"
  b_duration :: "string option"
  b_status :: string
  b_created_at :: nat

record message_row =
  m_id :: int
  m_sender_id :: "int option"
  m_receiver_id :: "int option"
  m_content :: string
  m_created_at :: nat

text \<open>
  The schema declares two foreign keys on \<open>bookings\<close>. Whether SQLite enforces them is
  the connection's \<open>foreign_keys\<close> setting, which the program never sets: it is whatever
  the database driver's build defaults to, so it is a parameter of the store.
\<close>

record database =
  foreign_keys :: bool
  users :: "user_row list"
  bookings :: "booking_row list"
  messages :: "message_row list"

datatype error =
    SyntaxError
  | SqliteConstraintNotNull
  | SqliteConstraintForeignKey
  | SqliteFailure

text \<open>
  What a handler reads from its environment while it runs: the store's clock in seconds
  (\<open>CURRENT_TIMESTAMP\<close>), the runtime's clock in milliseconds (\<open>new Date()\<close>), and
  whether the store fails for a reason of its own (disk, lock, rowid space).
\<close>

record env =
  now_db :: nat
  now_js :: nat
  store_fails :: bool

text \<open>
  \<open>INTEGER PRIMARY KEY AUTOINCREMENT\<close>: one more than the largest rowid used so far,
  1 in an empty table. The program never deletes a row, so the largest rowid used is the
  largest one present.
\<close>

definition next_rowid :: "int list \<Rightarrow> int" where
  "next_rowid ids = fold max ids 0 + 1"

definition seed_users :: "user_row list" where
  "seed_users =
    [\<lparr>u_id = 1, u_name = ''Aarav'', u_email = ''aarav@example.com'', u_role = friend,
      u_city = Some ''Mumbai'', u_age = Some 24, u_languages = Some ''Hindi, English'',
      u_interests = Some ''Movies, Cricket'',
      u_about = Some ''Love exploring new cafes and talking about cinema.'',
      u_hourly_rate = Some 800, u_verified = Some 1, u_rating = Some 4.8\<rparr>,
     \<lparr>u_id = 2, u_name = ''Ishani'', u_email = ''ishani@example.com'', u_role = friend,
      u_city = Some ''Delhi'', u_age = Some 22, u_languages = Some ''Hindi, English, Punjabi'',
      u_interests = Some ''Travel, Photography'',
      u_about = Some ''Avid traveler looking for companions for city tours.'',
      u_hourly_rate = Some 1000, u_verified = Some 1, u_rating = Some 4.9\<rparr>,
     \<lparr>u_id = 3, u_name = ''Rohan'', u_email = ''rohan@example.com'', u_role = friend,
      u_city = Some ''Bangalore'', u_age = Some 26, u_languages = Some ''Kannada, English'',
      u_interests = Some ''Tech, Gaming'',
      u_about = Some ''Let's grab a coffee and talk about the latest tech trends.'',
      u_hourly_rate = Some 750, u_verified = Some 1, u_rating = Some 4.7\<rparr>,
     \<lparr>u_id = 4, u_name = ''Priya'', u_email = ''priya@example.com'', u_role = friend,
      u_city = Some ''Pune'', u_age = Some 23, u_languages = Some ''Marathi, Hindi, English'',
      u_interests = Some ''Books, Art'',
      u_about = Some ''Quiet companion for library visits or art galleries.'',
      u_hourly_rate = Some 900, u_verified = Some 1, u_rating = Some 5.0\<rparr>]"

text \<open>The database after start-up on a fresh file: the schema, then the seed rows.\<close>

definition init_db :: "bool \<Rightarrow> database" where
  "init_db fk = \<lparr>foreign_keys = fk, users = seed_users, bookings = [], messages = []\<rparr>"

text \<open>
  \<open>INSERT INTO messages (sender_id, receiver_id, content) VALUES (?, ?, ?)\<close>.
  A null (or missing) \<open>content\<close> violates \<open>NOT NULL\<close>; \<open>run\<close> throws on every failure.
\<close>

definition insert_message ::
  "database \<Rightarrow> env \<Rightarrow> int option \<Rightarrow> int option \<Rightarrow> string option \<Rightarrow> error + database" where
  "insert_message d e senderId receiverId content =
    (if store_fails e then Inl SqliteFailure
     else case content of
       None \<Rightarrow> Inl SqliteConstraintNotNull
     | Some c \<Rightarrow>
         Inr (d\<lparr>messages := messages d @
           [\<lparr>m_id = next_rowid (map m_id (messages d)), m_sender_id = senderId,
             m_receiver_id = receiverId, m_content = c, m_created_at = now_db e\<rparr>]\<rparr>))"

text \<open>A foreign key column may be null; otherwise, when enforced, it names a user.\<close>

definition fk_ok :: "database \<Rightarrow> int option \<Rightarrow> bool" where
  "fk_ok d v =
    (case v of None \<Rightarrow> True
     | Some i \<Rightarrow> \<not> foreign_keys d \<or> i \<in> set (map u_id (users d)))"

section \<open>The HTTP routes\<close>

text \<open>
  A route parameter is text. Compared with an integer column it is read as the integer it
  spells; \<open>None\<close> is a segment that spells none, which equals no stored integer. A null
  column equals nothing.
\<close>

definition sql_eq :: "int option \<Rightarrow> int option \<Rightarrow> bool" where
  "sql_eq col param =
    (case col of None \<Rightarrow> False
     | Some i \<Rightarrow> (case param of None \<Rightarrow> False | Some j \<Rightarrow> i = j))"

datatype friend_response =
    Ok200 user_row
  | NotFound404 string

definition get_friends :: "database \<Rightarrow> user_row list" where
  "get_friends d = filter (\<lambda>u. u_role u = friend) (users d)"

definition get_friend :: "database \<Rightarrow> int option \<Rightarrow> friend_response" where
  "get_friend d ident =
    (case find (\<lambda>u. sql_eq (Some (u_id u)) ident \<and> u_role u = friend) (users d) of
       Some u \<Rightarrow> Ok200 u
     | None \<Rightarrow> NotFound404 ''Friend not found'')"

text \<open>
  \<open>ORDER BY created_at ASC\<close> over a scan of the table: SQL leaves the order of rows
  with equal keys open; SQLite's sorter keeps them in scan order, as the stable
  \<open>sort_key\<close> does.
\<close>

definition get_messages :: "database \<Rightarrow> int option \<Rightarrow> int option \<Rightarrow> message_row list" where
  "get_messages d userId otherId =
    sort_key m_created_at
      (filter (\<lambda>m. (sql_eq (m_sender_id m) userId \<and> sql_eq (m_receiver_id m) otherId)
                  \<or> (sql_eq (m_sender_id m) otherId \<and> sql_eq (m_receiver_id m) userId))
         (messages d))"

record booking_request =
  customerId :: "int option"
  friendId :: "int option"
  activity :: "string option"
  duration :: "string option"

datatype booking_response =
    Created int
  | ServerError error

text \<open>
  \<open>POST /api/bookings\<close>. A throw of \<open>run\<close> leaves the handler before \<open>res.json\<close>;
  the framework answers it with a server error and the table is as it was.
\<close>

definition post_bookings ::
  "database \<Rightarrow> env \<Rightarrow> booking_request \<Rightarrow> booking_response \<times> database" where
  "post_bookings d e req =
    (if store_fails e then (ServerError SqliteFailure, d)
     else if \<not> (fk_ok d (customerId req) \<and> fk_ok d (friendId req))
       then (ServerError SqliteConstraintForeignKey, d)
     else
       (let lastInsertRowid = next_rowid (map b_id (bookings d)) in
        (Created lastInsertRowid,
         d\<lparr>bookings := bookings d @
           [\<lparr>b_id = lastInsertRowid, b_customer_id = customerId req,
             b_friend_id = friendId req, b_activity = activity req,
             b_duration = duration req, b_status = ''pending'',
             b_created_at = now_db e\<rparr>]\<rparr>)))"

section \<open>The WebSocket relay\<close>

type_synonym handle = nat

datatype ready_state = CONNECTING | OPEN | CLOSING | CLOSED

text \<open>The frame pushed to a receiver; \<open>createdAt\<close> is in milliseconds since the epoch.\<close>

record push_payload =
  p_type :: string
  p_senderId :: "int option"
  p_content :: "string option"
  p_createdAt :: nat

text \<open>
  The state of the server process: the database, the registry \<open>clients\<close>, and for every
  connection its captured variable \<open>userId\<close> and the \<open>readyState\<close> of its socket.
  \<open>sent\<close> logs every call of \<open>send\<close>, oldest first, with the handle it was called on.
\<close>

record world =
  db :: database
  clients :: "int \<rightharpoonup> handle"
  userId :: "handle \<Rightarrow> int option"
  readyState :: "handle \<Rightarrow> ready_state"
  sent :: "(handle \<times> push_payload) list"

definition init_world :: "bool \<Rightarrow> world" where
  "init_world fk =
    \<lparr>db = init_db fk, clients = Map.empty, userId = (\<lambda>_. None),
     readyState = (\<lambda>_. CLOSED), sent = []\<rparr>"

text \<open>
  What \<open>JSON.parse\<close> makes of an inbound frame. \<open>Malformed\<close> is a frame on which it,
  or the read of \<open>message.type\<close>, throws; \<open>Other\<close> is a message of any other type. An identity is a number or null, a
  text is a string or null, a missing field counting as null.
\<close>

datatype inbound =
    Malformed
  | Auth "int option"
  | Chat "int option" "int option" "string option"
  | Other

text \<open>\<open>wss.on("connection")\<close>: a new open socket with \<open>userId = null\<close>.\<close>

definition on_connection :: "world \<Rightarrow> handle \<Rightarrow> world" where
  "on_connection w ws =
    w\<lparr>userId := (userId w)(ws := None), readyState := (readyState w)(ws := OPEN)\<rparr>"

text \<open>
  \<open>clients.get(receiverId)\<close>: the guard on \<open>clients.set\<close> keeps null out of the keys.
\<close>

definition clients_get :: "world \<Rightarrow> int option \<Rightarrow> handle option" where
  "clients_get w key = (case key of None \<Rightarrow> None | Some k \<Rightarrow> clients w k)"

text \<open>
  \<open>ws.on("message")\<close>. The result is the error thrown, if any, and the state the handler
  leaves. In the test \<open>if (userId)\<close> null and 0 are false.
\<close>

fun on_message :: "world \<Rightarrow> handle \<Rightarrow> env \<Rightarrow> inbound \<Rightarrow> error option \<times> world" where
  "on_message w ws e Malformed = (Some SyntaxError, w)"
| "on_message w ws e (Auth uid) =
    (let w1 = w\<lparr>userId := (userId w)(ws := uid)\<rparr> in
     (None,
      case uid of
        None \<Rightarrow> w1
      | Some u \<Rightarrow> if u \<noteq> 0 then w1\<lparr>clients := (clients w1)(u \<mapsto> ws)\<rparr> else w1))"
| "on_message w ws e (Chat senderId receiverId content) =
    (case insert_message (db w) e senderId receiverId content of
       Inl err \<Rightarrow> (Some err, w)
     | Inr d \<Rightarrow>
        (let w1 = w\<lparr>db := d\<rparr> in
         case clients_get w1 receiverId of
           None \<Rightarrow> (None, w1)
         | Some receiverWs \<Rightarrow>
             if readyState w1 receiverWs = OPEN
             then (None, w1\<lparr>sent := sent w1 @
                    [(receiverWs, \<lparr>p_type = ''chat'', p_senderId = senderId,
                                   p_content = content, p_createdAt = now_js e\<rparr>)]\<rparr>)
             else (None, w1)))"
| "on_message w ws e Other = (None, w)"

text \<open>\<open>ws.on("close")\<close>: the socket is closed when the handler runs.\<close>

definition on_close :: "world \<Rightarrow> handle \<Rightarrow> world" where
  "on_close w ws =
    (let w1 = w\<lparr>readyState := (readyState w)(ws := CLOSED)\<rparr> in
     case userId w1 ws of
       None \<Rightarrow> w1
     | Some u \<Rightarrow> if u \<noteq> 0 then w1\<lparr>clients := (clients w1)(u := None)\<rparr> else w1)"

section \<open>Runs of the server\<close>

datatype event =
    Connection handle
  | Message handle env inbound
  | Close handle
  | PostBooking env booking_request

fun step :: "world \<Rightarrow> event \<Rightarrow> error option \<times> world" where
  "step w (Connection ws) = (None, on_connection w ws)"
| "step w (Message ws e msg) = on_message w ws e msg"
| "step w (Close ws) = (None, on_close w ws)"
| "step w (PostBooking e req) = (None, w\<lparr>db := snd (post_bookings (db w) e req)\<rparr>)"

text \<open>
  Events are handled one at a time, each handler running to its end. An error thrown by
  a socket handler is caught by nobody: the run ends there.
\<close>

fun run :: "world \<Rightarrow> event list \<Rightarrow> error option \<times> world" where
  "run w [] = (None, w)"
| "run w (ev # evs) =
    (case step w ev of
       (Some err, w') \<Rightarrow> (Some err, w')
     | (None, w') \<Rightarrow> run w' evs)"

text \<open>
  The chat submissions of a run, in the order the server handles them: what each asks to
  store, and the reading of the store's clock it meets.
\<close>

fun submissions :: "event list \<Rightarrow> (int option \<times> int option \<times> string option) list" where
  "submissions [] = []"
| "submissions (Message ws e (Chat s r c) # evs) = (s, r, c) # submissions evs"
| "submissions (ev # evs) = submissions evs"

fun clock_readings :: "event list \<Rightarrow> nat list" where
  "clock_readings [] = []"
| "clock_readings (Message ws e (Chat s r c) # evs) = now_db e # clock_readings evs"
| "clock_readings (ev # evs) = clock_readings evs"

text \<open>Whether a stored or submitted message is one between the two identities.\<close>

definition between :: "int \<Rightarrow> int \<Rightarrow> int option \<Rightarrow> int option \<Rightarrow> bool" where
  "between a b s r = ((s = Some a \<and> r = Some b) \<or> (s = Some b \<and> r = Some a))"

definition stored :: "message_row \<Rightarrow> int option \<times> int option \<times> string option" where
  "stored m = (m_sender_id m, m_receiver_id m, Some (m_content m))"

section \<open>Facts about the store\<close>

lemma fold_max_ge: "(k::int) \<le> fold max ids k"
proof (induction ids arbitrary: k)
  case Nil
  show ?case by simp
next
  case (Cons x xs)
  have "k \<le> max x k" by simp
  also have "max x k \<le> fold max xs (max x k)" by (rule Cons.IH)
  finally show ?case by simp
qed

lemma fold_max_member: "i \<in> set ids \<Longrightarrow> i \<le> fold max ids (k::int)"
proof (induction ids arbitrary: k)
  case Nil
  then show ?case by simp
next
  case (Cons x xs)
  show ?case
  proof (cases "i = x")
    case True
    have "i \<le> max x k" using True by simp
    also have "max x k \<le> fold max xs (max x k)" by (rule fold_max_ge)
    finally show ?thesis by simp
  next
    case False
    with Cons.prems have "i \<in> set xs" by simp
    then show ?thesis using Cons.IH by simp
  qed
qed

lemma next_rowid_greater: "i \<in> set ids \<Longrightarrow> i < next_rowid ids"
  using fold_max_member [of i ids 0] by (simp add: next_rowid_def)

lemma insert_message_ok:
  "\<not> store_fails e \<Longrightarrow>
   insert_message d e s r (Some c) =
     Inr (d\<lparr>messages := messages d @
        [\<lparr>m_id = next_rowid (map m_id (messages d)), m_sender_id = s,
          m_receiver_id = r, m_content = c, m_created_at = now_db e\<rparr>]\<rparr>)"
  by (simp add: insert_message_def)

lemma on_message_chat_db:
  "\<not> store_fails e \<Longrightarrow>
   fst (on_message w ws e (Chat s r (Some c))) = None \<and>
   db (snd (on_message w ws e (Chat s r (Some c)))) =
     (db w)\<lparr>messages := messages (db w) @
        [\<lparr>m_id = next_rowid (map m_id (messages (db w))), m_sender_id = s,
          m_receiver_id = r, m_content = c, m_created_at = now_db e\<rparr>]\<rparr>"
  by (simp add: insert_message_ok Let_def split: option.split)

lemma new_row_fresh:
  "\<lparr>m_id = next_rowid (map m_id ms), m_sender_id = s, m_receiver_id = r,
    m_content = c, m_created_at = t\<rparr> \<notin> set ms"
proof
  assume "\<lparr>m_id = next_rowid (map m_id ms), m_sender_id = s, m_receiver_id = r,
    m_content = c, m_created_at = t\<rparr> \<in> set ms"
  then have "next_rowid (map m_id ms) \<in> set (map m_id ms)" by force
  then show False using next_rowid_greater by blast
qed

lemma sql_eq_Some: "sql_eq x (Some j) = (x = Some j)"
  by (cases x) (auto simp: sql_eq_def)

lemma history_filter_sym:
  "(\<lambda>m. (sql_eq (m_sender_id m) a \<and> sql_eq (m_receiver_id m) b)
                  \<or> (sql_eq (m_sender_id m) b \<and> sql_eq (m_receiver_id m) a))
   = (\<lambda>m. (sql_eq (m_sender_id m) b \<and> sql_eq (m_receiver_id m) a)
                  \<or> (sql_eq (m_sender_id m) a \<and> sql_eq (m_receiver_id m) b))"
  by (rule ext) blast

lemma get_messages_sorted: "sorted (map m_created_at (get_messages d x y))"
  unfolding get_messages_def by (rule sorted_sort_key)

lemma get_messages_sorted_table:
  assumes "sorted (map m_created_at (messages d))"
  shows "get_messages d (Some a) (Some b)
    = filter (\<lambda>m. between a b (m_sender_id m) (m_receiver_id m)) (messages d)"
proof -
  let ?P = "\<lambda>m. between a b (m_sender_id m) (m_receiver_id m)"
  have eq: "get_messages d (Some a) (Some b) = sort_key m_created_at (filter ?P (messages d))"
    by (simp add: get_messages_def sql_eq_Some between_def)
  from assms have "sorted (map m_created_at (filter ?P (messages d)))"
    by (rule sorted_filter)
  then show ?thesis unfolding eq by (rule sort_key_id_if_sorted)
qed

lemma find_first_match:
  "\<exists>x \<in> set xs. P x \<Longrightarrow> \<exists>x \<in> set xs. P x \<and> find P xs = Some x"
  by (induction xs) auto

lemma find_no_match: "\<forall>x \<in> set xs. \<not> P x \<Longrightarrow> find P xs = None"
  by (induction xs) auto

lemma find_unique_key:
  "distinct (map f xs) \<Longrightarrow> x \<in> set xs \<Longrightarrow> P x \<Longrightarrow> \<forall>y \<in> set xs. P y \<longrightarrow> f y = f x
    \<Longrightarrow> find P xs = Some x"
proof (induction xs)
  case Nil
  then show ?case by simp
next
  case (Cons y ys)
  show ?case
  proof (cases "P y")
    case True
    with Cons.prems have "f y = f x" by simp
    with Cons.prems(1,2) have "y = x" by force
    with True show ?thesis by simp
  next
    case False
    with Cons.prems(2,3) have mem: "x \<in> set ys" by auto
    from Cons.prems(1) have dist: "distinct (map f ys)" by simp
    from Cons.prems(4) have uniq: "\<forall>z \<in> set ys. P z \<longrightarrow> f z = f x" by simp
    from dist mem Cons.prems(3) uniq have "find P ys = Some x" by (rule Cons.IH)
    with False show ?thesis by simp
  qed
qed

lemma friend_filter:
  "(sql_eq (Some (u_id u)) (Some i) \<and> u_role u = friend) = (u_id u = i \<and> u_role u = friend)"
  by (simp add: sql_eq_def)

lemma friend_filter_None:
  "(sql_eq (Some (u_id u)) None \<and> u_role u = friend) = False"
  by (simp add: sql_eq_def)

lemma get_friend_Some:
  "get_friend d (Some i) =
    (case find (\<lambda>u. u_id u = i \<and> u_role u = friend) (users d) of
       Some u \<Rightarrow> Ok200 u | None \<Rightarrow> NotFound404 ''Friend not found'')"
  unfolding get_friend_def friend_filter by (rule refl)

lemma get_friend_None: "get_friend d None = NotFound404 ''Friend not found''"
proof -
  have "find (\<lambda>u. False) (users d) = None"
    by (rule find_no_match) simp
  then show ?thesis
    unfolding get_friend_def friend_filter_None by simp
qed

lemma new_booking_fresh: "\<forall>r \<in> set bs. b_id r \<noteq> next_rowid (map b_id bs)"
proof
  fix r assume "r \<in> set bs"
  then have "b_id r \<in> set (map b_id bs)" by simp
  then have "b_id r < next_rowid (map b_id bs)" by (rule next_rowid_greater)
  then show "b_id r \<noteq> next_rowid (map b_id bs)" by simp
qed

lemma filter_fresh_id:
  "\<forall>r \<in> set bs. b_id r \<noteq> i \<Longrightarrow> filter (\<lambda>r. b_id r = i) bs = []"
  by (induction bs) auto

lemma post_bookings_messages: "messages (snd (post_bookings d e req)) = messages d"
  by (simp add: post_bookings_def Let_def)

section \<open>Facts about runs\<close>

lemma on_message_rows:
  assumes "on_message w ws e msg = (None, w1)"
  shows "\<exists>rows. messages (db w1) = messages (db w) @ rows
    \<and> map stored rows = submissions [Message ws e msg]
    \<and> map m_created_at rows = clock_readings [Message ws e msg]"
proof (cases msg)
  case Malformed
  with assms show ?thesis by simp
next
  case (Auth uid)
  with assms have "db w1 = db w"
    by (auto simp: Let_def split: option.splits if_splits)
  with Auth show ?thesis by simp
next
  case (Chat s r c)
  show ?thesis
  proof (cases "store_fails e \<or> c = None")
    case True
    then have "fst (on_message w ws e (Chat s r c)) \<noteq> None"
      by (auto simp: insert_message_def)
    with assms Chat show ?thesis by simp
  next
    case False
    then obtain c' where c: "c = Some c'" and ok: "\<not> store_fails e" by auto
    let ?row = "\<lparr>m_id = next_rowid (map m_id (messages (db w))), m_sender_id = s,
          m_receiver_id = r, m_content = c', m_created_at = now_db e\<rparr>"
    from on_message_chat_db [OF ok, of w ws s r c'] assms Chat c
    have "messages (db w1) = messages (db w) @ [?row]" by simp
    then show ?thesis
      using Chat c by (intro exI [of _ "[?row]"]) (simp add: stored_def)
  qed
next
  case Other
  with assms show ?thesis by simp
qed

lemma step_rows:
  assumes "step w ev = (None, w1)"
  shows "\<exists>rows. messages (db w1) = messages (db w) @ rows
    \<and> map stored rows = submissions [ev]
    \<and> map m_created_at rows = clock_readings [ev]"
proof (cases ev)
  case (Connection ws)
  with assms show ?thesis by (auto simp: on_connection_def)
next
  case (Message ws e msg)
  with assms show ?thesis using on_message_rows [of w ws e msg w1] by simp
next
  case (Close ws)
  with assms have "db w1 = db w"
    by (auto simp: on_close_def Let_def split: option.splits)
  with Close show ?thesis by simp
next
  case (PostBooking e req)
  with assms show ?thesis by (auto simp: post_bookings_messages)
qed

lemma submissions_Cons: "submissions (ev # evs) = submissions [ev] @ submissions evs"
  by (induction "ev # evs" rule: submissions.induct) auto

lemma clock_readings_Cons:
  "clock_readings (ev # evs) = clock_readings [ev] @ clock_readings evs"
  by (induction "ev # evs" rule: clock_readings.induct) auto

lemma run_rows:
  "run w evs = (None, w') \<Longrightarrow>
   \<exists>rows. messages (db w') = messages (db w) @ rows
    \<and> map stored rows = submissions evs
    \<and> map m_created_at rows = clock_readings evs"
proof (induction evs arbitrary: w)
  case Nil
  then show ?case by simp
next
  case (Cons ev evs)
  obtain err w1 where st: "step w ev = (err, w1)" by (cases "step w ev")
  show ?case
  proof (cases err)
    case (Some x)
    with st Cons.prems show ?thesis by simp
  next
    case None
    with st Cons.prems have rest: "run w1 evs = (None, w')" by simp
    from st None obtain rows1 where r1: "messages (db w1) = messages (db w) @ rows1"
      "map stored rows1 = submissions [ev]" "map m_created_at rows1 = clock_readings [ev]"
      using step_rows [of w ev w1] by auto
    from Cons.IH [OF rest] obtain rows2 where r2: "messages (db w') = messages (db w1) @ rows2"
      "map stored rows2 = submissions evs" "map m_created_at rows2 = clock_readings evs"
      by auto
    have "messages (db w') = messages (db w) @ (rows1 @ rows2)"
      using r1(1) r2(1) by simp
    moreover have "map stored (rows1 @ rows2) = submissions (ev # evs)"
      using r1(2) r2(2) submissions_Cons [of ev evs] by simp
    moreover have "map m_created_at (rows1 @ rows2) = clock_readings (ev # evs)"
      using r1(3) r2(3) clock_readings_Cons [of ev evs] by simp
    ultimately show ?thesis by blast
  qed
qed

section \<open>The relay persists every valid submission\<close>

text \<open>
  C1. A chat event whose sender, receiver and content are all present, handled while the
  store accepts the write, throws nothing and appends exactly one row to \<open>messages\<close>:
  a row that was not there before, carrying that sender, receiver and content and the
  store's clock reading. The history query for the pair returns what it returned before
  plus that one row. The state \<open>w\<close> is arbitrary: it does not matter whether the
  receiver is in \<open>clients\<close> or which \<open>readyState\<close> its socket has.
\<close>

theorem chat_persists_one_message:
  assumes "\<not> store_fails e"
  shows "fst (on_message w ws e (Chat (Some a) (Some b) (Some c))) = None \<and>
    (\<exists>row. m_sender_id row = Some a \<and> m_receiver_id row = Some b \<and> m_content row = c
      \<and> m_created_at row = now_db e
      \<and> row \<notin> set (messages (db w))
      \<and> messages (db (snd (on_message w ws e (Chat (Some a) (Some b) (Some c)))))
          = messages (db w) @ [row]
      \<and> mset (get_messages (db (snd (on_message w ws e (Chat (Some a) (Some b) (Some c)))))
            (Some a) (Some b))
          = add_mset row (mset (get_messages (db w) (Some a) (Some b))))"
proof -
  let ?row = "\<lparr>m_id = next_rowid (map m_id (messages (db w))), m_sender_id = Some a,
          m_receiver_id = Some b, m_content = c, m_created_at = now_db e\<rparr>"
  note step = on_message_chat_db [OF assms, of w ws "Some a" "Some b" c]
  have fresh: "?row \<notin> set (messages (db w))" by (rule new_row_fresh)
  have tbl: "messages (db (snd (on_message w ws e (Chat (Some a) (Some b) (Some c)))))
      = messages (db w) @ [?row]"
    using step by simp
  have hist: "mset (get_messages (db (snd (on_message w ws e (Chat (Some a) (Some b) (Some c)))))
            (Some a) (Some b))
          = add_mset ?row (mset (get_messages (db w) (Some a) (Some b)))"
    unfolding get_messages_def tbl by (simp add: sql_eq_def)
  show ?thesis
    using step fresh tbl hist by (intro conjI exI [of _ ?row]) simp_all
qed

theorem chat_persists_one_message_witness:
  "\<not> store_fails \<lparr>now_db = 100, now_js = 100250, store_fails = False\<rparr>
   \<and> fst (on_message (init_world True) 7 \<lparr>now_db = 100, now_js = 100250, store_fails = False\<rparr>
        (Chat (Some 1) (Some 2) (Some ''hello''))) = None
   \<and> (\<exists>row. m_sender_id row = Some 1 \<and> m_receiver_id row = Some 2 \<and> m_content row = ''hello''
      \<and> m_created_at row = 100
      \<and> row \<notin> set (messages (db (init_world True)))
      \<and> messages (db (snd (on_message (init_world True) 7
            \<lparr>now_db = 100, now_js = 100250, store_fails = False\<rparr>
            (Chat (Some 1) (Some 2) (Some ''hello'')))))
          = messages (db (init_world True)) @ [row]
      \<and> mset (get_messages (db (snd (on_message (init_world True) 7
            \<lparr>now_db = 100, now_js = 100250, store_fails = False\<rparr>
            (Chat (Some 1) (Some 2) (Some ''hello''))))) (Some 1) (Some 2))
          = add_mset row (mset (get_messages (db (init_world True)) (Some 1) (Some 2))))"
  using chat_persists_one_message
    [where e = "\<lparr>now_db = 100, now_js = 100250, store_fails = False\<rparr>"
       and w = "init_world True" and ws = 7 and a = 1 and b = 2 and c = "''hello''"]
  by simp

section \<open>Push delivery\<close>

text \<open>
  C2. For a chat event with a content, handled while the store accepts the write: the
  handler throws nothing, the message is stored, and \<open>send\<close> is called, once, on the
  receiver's handle, with the payload made of type \<open>chat\<close>, the sender, the content and
  a creation time, exactly when \<open>clients.get(receiverId)\<close> yields a handle whose
  \<open>readyState\<close> is \<open>OPEN\<close>. If there is no handle, or it is not open, nothing is
  sent at all.
\<close>

theorem push_iff_receiver_open:
  assumes "\<not> store_fails e"
  shows "fst (on_message w ws e (Chat s r (Some c))) = None
    \<and> (\<exists>row. messages (db (snd (on_message w ws e (Chat s r (Some c))))) = messages (db w) @ [row]
          \<and> stored row = (s, r, Some c))
    \<and> (\<forall>h. clients_get w r = Some h \<and> readyState w h = OPEN \<longrightarrow>
          sent (snd (on_message w ws e (Chat s r (Some c)))) =
            sent w @ [(h, \<lparr>p_type = ''chat'', p_senderId = s, p_content = Some c,
                           p_createdAt = now_js e\<rparr>)])
    \<and> ((\<forall>h. clients_get w r = Some h \<longrightarrow> readyState w h \<noteq> OPEN) \<longrightarrow>
          sent (snd (on_message w ws e (Chat s r (Some c)))) = sent w)"
  using assms
  by (auto simp: insert_message_ok Let_def clients_get_def stored_def split: option.split)

theorem push_iff_receiver_open_witness:
  "\<not> store_fails \<lparr>now_db = 100, now_js = 100250, store_fails = False\<rparr>
   \<and> clients_get (snd (run (init_world True)
          [Connection 7, Message 7 \<lparr>now_db = 90, now_js = 90000, store_fails = False\<rparr>
             (Auth (Some 2))])) (Some 2) = Some 7
   \<and> readyState (snd (run (init_world True)
          [Connection 7, Message 7 \<lparr>now_db = 90, now_js = 90000, store_fails = False\<rparr>
             (Auth (Some 2))])) 7 = OPEN
   \<and> sent (snd (on_message (snd (run (init_world True)
          [Connection 7, Message 7 \<lparr>now_db = 90, now_js = 90000, store_fails = False\<rparr>
             (Auth (Some 2))])) 8 \<lparr>now_db = 100, now_js = 100250, store_fails = False\<rparr>
          (Chat (Some 1) (Some 2) (Some ''hello''))))
      = [(7, \<lparr>p_type = ''chat'', p_senderId = Some 1, p_content = Some ''hello'',
              p_createdAt = 100250\<rparr>)]
   \<and> clients_get (init_world True) (Some 2) = None
   \<and> clients_get (snd (run (init_world True)
          [Connection 7, Message 7 \<lparr>now_db = 90, now_js = 90000, store_fails = False\<rparr>
             (Auth (Some 2)), Message 7 \<lparr>now_db = 91, now_js = 91000, store_fails = False\<rparr>
             (Auth (Some 3)), Close 7])) (Some 2) = Some 7
   \<and> readyState (snd (run (init_world True)
          [Connection 7, Message 7 \<lparr>now_db = 90, now_js = 90000, store_fails = False\<rparr>
             (Auth (Some 2)), Message 7 \<lparr>now_db = 91, now_js = 91000, store_fails = False\<rparr>
             (Auth (Some 3)), Close 7])) 7 = CLOSED
   \<and> sent (snd (on_message (snd (run (init_world True)
          [Connection 7, Message 7 \<lparr>now_db = 90, now_js = 90000, store_fails = False\<rparr>
             (Auth (Some 2)), Message 7 \<lparr>now_db = 91, now_js = 91000, store_fails = False\<rparr>
             (Auth (Some 3)), Close 7])) 8
          \<lparr>now_db = 100, now_js = 100250, store_fails = False\<rparr>
          (Chat (Some 1) (Some 2) (Some ''hello'')))) = []
   \<and> sent (snd (on_message (init_world True) 8
          \<lparr>now_db = 100, now_js = 100250, store_fails = False\<rparr>
          (Chat (Some 1) (Some 2) (Some ''hello'')))) = []"
  using push_iff_receiver_open
    [where e = "\<lparr>now_db = 100, now_js = 100250, store_fails = False\<rparr>"
       and w = "snd (run (init_world True)
          [Connection 7, Message 7 \<lparr>now_db = 90, now_js = 90000, store_fails = False\<rparr>
             (Auth (Some 2))])"
       and ws = 8 and s = "Some 1" and r = "Some 2" and c = "''hello''"]
    push_iff_receiver_open
    [where e = "\<lparr>now_db = 100, now_js = 100250, store_fails = False\<rparr>"
       and w = "init_world True"
       and ws = 8 and s = "Some 1" and r = "Some 2" and c = "''hello''"]
    push_iff_receiver_open
    [where e = "\<lparr>now_db = 100, now_js = 100250, store_fails = False\<rparr>"
       and w = "snd (run (init_world True)
          [Connection 7, Message 7 \<lparr>now_db = 90, now_js = 90000, store_fails = False\<rparr>
             (Auth (Some 2)), Message 7 \<lparr>now_db = 91, now_js = 91000, store_fails = False\<rparr>
             (Auth (Some 3)), Close 7])"
       and ws = 8 and s = "Some 1" and r = "Some 2" and c = "''hello''"]
  by (simp add: init_world_def init_db_def on_connection_def on_close_def clients_get_def)

section \<open>Order of the history\<close>

text \<open>
  C3, as amended. The history query always returns its rows in non-decreasing
  \<open>created_at\<close>. If a run of events is handled without an error, the table it starts
  from is in non-decreasing \<open>created_at\<close> by rowid, and the readings of the store's
  clock met by the run's chat submissions never decrease and are not before the latest
  stored \<open>created_at\<close>, then the history of a pair is the history it had before,
  followed by the run's submissions between the two, in the order the server handled
  them.
\<close>

theorem history_in_processing_order:
  "sorted (map m_created_at (get_messages (db w) x y))
   \<and> (run w0 evs = (None, w)
        \<and> sorted (map m_created_at (messages (db w0)) @ clock_readings evs)
      \<longrightarrow> map stored (get_messages (db w) (Some a) (Some b))
          = map stored (get_messages (db w0) (Some a) (Some b))
            @ filter (\<lambda>(s, r, c). between a b s r) (submissions evs))"
proof (intro conjI impI)
  show "sorted (map m_created_at (get_messages (db w) x y))"
    by (rule get_messages_sorted)
next
  let ?P = "\<lambda>m. between a b (m_sender_id m) (m_receiver_id m)"
  assume asm: "run w0 evs = (None, w)
        \<and> sorted (map m_created_at (messages (db w0)) @ clock_readings evs)"
  then obtain rows where rows: "messages (db w) = messages (db w0) @ rows"
      "map stored rows = submissions evs" "map m_created_at rows = clock_readings evs"
    using run_rows [of w0 evs w] by blast
  from asm rows(3) have all_sorted: "sorted (map m_created_at (messages (db w0) @ rows))"
    by simp
  then have old_sorted: "sorted (map m_created_at (messages (db w0)))"
    by (simp add: sorted_append)
  have new: "get_messages (db w) (Some a) (Some b)
      = filter ?P (messages (db w0)) @ filter ?P rows"
    using all_sorted get_messages_sorted_table [of "db w" a b] by (simp add: rows(1))
  have old: "get_messages (db w0) (Some a) (Some b) = filter ?P (messages (db w0))"
    using old_sorted by (rule get_messages_sorted_table)
  have "map stored (filter ?P rows)
      = filter (\<lambda>(s, r, c). between a b s r) (map stored rows)"
    by (simp add: filter_map comp_def stored_def)
  then show "map stored (get_messages (db w) (Some a) (Some b))
          = map stored (get_messages (db w0) (Some a) (Some b))
            @ filter (\<lambda>(s, r, c). between a b s r) (submissions evs)"
    by (simp add: new old rows(2))
qed

theorem history_in_processing_order_witness:
  "fst (run (init_world True)
      [Connection 7,
       Message 7 \<lparr>now_db = 10, now_js = 10400, store_fails = False\<rparr> (Auth (Some 1)),
       Message 7 \<lparr>now_db = 10, now_js = 10500, store_fails = False\<rparr>
         (Chat (Some 1) (Some 2) (Some ''first'')),
       Message 8 \<lparr>now_db = 10, now_js = 10900, store_fails = False\<rparr>
         (Chat (Some 2) (Some 1) (Some ''second'')),
       Message 7 \<lparr>now_db = 12, now_js = 12100, store_fails = False\<rparr>
         (Chat (Some 1) (Some 3) (Some ''elsewhere'')),
       Message 7 \<lparr>now_db = 12, now_js = 12300, store_fails = False\<rparr>
         (Chat (Some 1) (Some 2) (Some ''third''))]) = None
   \<and> sorted (map m_created_at (messages (db (init_world True))) @ clock_readings
      [Connection 7,
       Message 7 \<lparr>now_db = 10, now_js = 10400, store_fails = False\<rparr> (Auth (Some 1)),
       Message 7 \<lparr>now_db = 10, now_js = 10500, store_fails = False\<rparr>
         (Chat (Some 1) (Some 2) (Some ''first'')),
       Message 8 \<lparr>now_db = 10, now_js = 10900, store_fails = False\<rparr>
         (Chat (Some 2) (Some 1) (Some ''second'')),
       Message 7 \<lparr>now_db = 12, now_js = 12100, store_fails = False\<rparr>
         (Chat (Some 1) (Some 3) (Some ''elsewhere'')),
       Message 7 \<lparr>now_db = 12, now_js = 12300, store_fails = False\<rparr>
         (Chat (Some 1) (Some 2) (Some ''third''))])
   \<and> map stored (get_messages (db (snd (run (init_world True)
      [Connection 7,
       Message 7 \<lparr>now_db = 10, now_js = 10400, store_fails = False\<rparr> (Auth (Some 1)),
       Message 7 \<lparr>now_db = 10, now_js = 10500, store_fails = False\<rparr>
         (Chat (Some 1) (Some 2) (Some ''first'')),
       Message 8 \<lparr>now_db = 10, now_js = 10900, store_fails = False\<rparr>
         (Chat (Some 2) (Some 1) (Some ''second'')),
       Message 7 \<lparr>now_db = 12, now_js = 12100, store_fails = False\<rparr>
         (Chat (Some 1) (Some 3) (Some ''elsewhere'')),
       Message 7 \<lparr>now_db = 12, now_js = 12300, store_fails = False\<rparr>
         (Chat (Some 1) (Some 2) (Some ''third''))]))) (Some 1) (Some 2))
      = [(Some 1, Some 2, Some ''first''), (Some 2, Some 1, Some ''second''),
         (Some 1, Some 2, Some ''third'')]"
proof -
  let ?evs = "[Connection 7,
       Message 7 \<lparr>now_db = 10, now_js = 10400, store_fails = False\<rparr> (Auth (Some 1)),
       Message 7 \<lparr>now_db = 10, now_js = 10500, store_fails = False\<rparr>
         (Chat (Some 1) (Some 2) (Some ''first'')),
       Message 8 \<lparr>now_db = 10, now_js = 10900, store_fails = False\<rparr>
         (Chat (Some 2) (Some 1) (Some ''second'')),
       Message 7 \<lparr>now_db = 12, now_js = 12100, store_fails = False\<rparr>
         (Chat (Some 1) (Some 3) (Some ''elsewhere'')),
       Message 7 \<lparr>now_db = 12, now_js = 12300, store_fails = False\<rparr>
         (Chat (Some 1) (Some 2) (Some ''third''))]"
  have ok: "fst (run (init_world True) ?evs) = None"
    by (simp add: insert_message_def clients_get_def on_connection_def init_world_def)
  then have r: "run (init_world True) ?evs = (None, snd (run (init_world True) ?evs))"
    by (metis prod.collapse)
  have s: "sorted (map m_created_at (messages (db (init_world True))) @ clock_readings ?evs)"
    by (simp add: init_world_def init_db_def)
  have old: "get_messages (db (init_world True)) (Some 1) (Some 2) = []"
    by (simp add: init_world_def init_db_def get_messages_def)
  have "map stored (get_messages (db (snd (run (init_world True) ?evs))) (Some 1) (Some 2))
      = map stored (get_messages (db (init_world True)) (Some 1) (Some 2))
            @ filter (\<lambda>(s, r, c). between 1 2 s r) (submissions ?evs)"
    using history_in_processing_order
      [where ?w0.0 = "init_world True" and evs = ?evs
         and w = "snd (run (init_world True) ?evs)" and a = 1 and b = 2] r s
    by blast
  then have "map stored (get_messages (db (snd (run (init_world True) ?evs))) (Some 1) (Some 2))
      = [(Some 1, Some 2, Some ''first''), (Some 2, Some 1, Some ''second''),
         (Some 1, Some 2, Some ''third'')]"
    by (simp add: old between_def)
  with ok s show ?thesis by blast
qed

text \<open>
  The order is that of \<open>created_at\<close>, not that of handling: when the store's clock
  is set back between two submissions of a pair, the history returns the later
  submission first.
\<close>

theorem history_order_counterexample:
  "fst (run (init_world True)
      [Message 7 \<lparr>now_db = 10, now_js = 10400, store_fails = False\<rparr>
         (Chat (Some 1) (Some 2) (Some ''first'')),
       Message 7 \<lparr>now_db = 5, now_js = 5900, store_fails = False\<rparr>
         (Chat (Some 1) (Some 2) (Some ''second''))]) = None
   \<and> submissions
      [Message 7 \<lparr>now_db = 10, now_js = 10400, store_fails = False\<rparr>
         (Chat (Some 1) (Some 2) (Some ''first'')),
       Message 7 \<lparr>now_db = 5, now_js = 5900, store_fails = False\<rparr>
         (Chat (Some 1) (Some 2) (Some ''second''))]
      = [(Some 1, Some 2, Some ''first''), (Some 1, Some 2, Some ''second'')]
   \<and> map stored (get_messages (db (snd (run (init_world True)
      [Message 7 \<lparr>now_db = 10, now_js = 10400, store_fails = False\<rparr>
         (Chat (Some 1) (Some 2) (Some ''first'')),
       Message 7 \<lparr>now_db = 5, now_js = 5900, store_fails = False\<rparr>
         (Chat (Some 1) (Some 2) (Some ''second''))]))) (Some 1) (Some 2))
      = [(Some 1, Some 2, Some ''second''), (Some 1, Some 2, Some ''first'')]"
  by (simp add: init_world_def init_db_def insert_message_def clients_get_def
      get_messages_def sql_eq_def stored_def next_rowid_def)

section \<open>The registry\<close>

text \<open>
  C4. An \<open>auth\<close> message with a user identity (a number other than 0, which no
  \<open>AUTOINCREMENT\<close> id is) binds the identity to the connection it arrived on: a lookup
  of the identity then yields that handle, a different handle bound to it before is no
  longer what the lookup yields, a lookup yields at most one handle, and the bindings of
  all other identities are untouched.
\<close>

theorem register_replaces_binding:
  assumes "u \<noteq> 0"
  shows "fst (on_message w ws e (Auth (Some u))) = None
    \<and> clients (snd (on_message w ws e (Auth (Some u)))) u = Some ws
    \<and> (\<forall>old. clients w u = Some old \<and> old \<noteq> ws \<longrightarrow>
          clients (snd (on_message w ws e (Auth (Some u)))) u \<noteq> Some old)
    \<and> (\<forall>h1 h2. clients (snd (on_message w ws e (Auth (Some u)))) u = Some h1
          \<and> clients (snd (on_message w ws e (Auth (Some u)))) u = Some h2 \<longrightarrow> h1 = h2)
    \<and> (\<forall>v. v \<noteq> u \<longrightarrow> clients (snd (on_message w ws e (Auth (Some u)))) v = clients w v)"
  using assms by (simp add: Let_def)

theorem register_replaces_binding_witness:
  "(1::int) \<noteq> 0
   \<and> clients (snd (run (init_world True)
        [Connection 7, Message 7 \<lparr>now_db = 90, now_js = 90000, store_fails = False\<rparr>
           (Auth (Some 1)), Connection 8])) 1 = Some 7
   \<and> clients (snd (on_message (snd (run (init_world True)
        [Connection 7, Message 7 \<lparr>now_db = 90, now_js = 90000, store_fails = False\<rparr>
           (Auth (Some 1)), Connection 8])) 8
        \<lparr>now_db = 95, now_js = 95000, store_fails = False\<rparr> (Auth (Some 1)))) 1 = Some 8
   \<and> clients (snd (on_message (snd (run (init_world True)
        [Connection 7, Message 7 \<lparr>now_db = 90, now_js = 90000, store_fails = False\<rparr>
           (Auth (Some 1)), Connection 8])) 8
        \<lparr>now_db = 95, now_js = 95000, store_fails = False\<rparr> (Auth (Some 1)))) 1 \<noteq> Some 7"
  using register_replaces_binding
    [where u = 1 and ws = 8 and e = "\<lparr>now_db = 95, now_js = 95000, store_fails = False\<rparr>"
       and w = "snd (run (init_world True)
        [Connection 7, Message 7 \<lparr>now_db = 90, now_js = 90000, store_fails = False\<rparr>
           (Auth (Some 1)), Connection 8])"]
  by (simp add: on_connection_def)

section \<open>Symmetry of the history\<close>

text \<open>
  C5. The history query gives the same answer for \<open>(A, B)\<close> and for \<open>(B, A)\<close>,
  and for two identities its rows are exactly the stored messages sent by one of them to
  the other, in either direction.
\<close>

theorem history_symmetric:
  "get_messages d x y = get_messages d y x
   \<and> set (get_messages d (Some a) (Some b))
       = {m \<in> set (messages d). between a b (m_sender_id m) (m_receiver_id m)}"
proof
  show "get_messages d x y = get_messages d y x"
    unfolding get_messages_def by (subst history_filter_sym) (rule refl)
  show "set (get_messages d (Some a) (Some b))
       = {m \<in> set (messages d). between a b (m_sender_id m) (m_receiver_id m)}"
    by (simp add: get_messages_def sql_eq_Some between_def)
qed

theorem history_symmetric_witness:
  "get_messages (db (snd (run (init_world True)
      [Message 7 \<lparr>now_db = 10, now_js = 10500, store_fails = False\<rparr>
         (Chat (Some 1) (Some 2) (Some ''ping'')),
       Message 8 \<lparr>now_db = 11, now_js = 11900, store_fails = False\<rparr>
         (Chat (Some 2) (Some 1) (Some ''pong''))]))) (Some 1) (Some 2)
   = get_messages (db (snd (run (init_world True)
      [Message 7 \<lparr>now_db = 10, now_js = 10500, store_fails = False\<rparr>
         (Chat (Some 1) (Some 2) (Some ''ping'')),
       Message 8 \<lparr>now_db = 11, now_js = 11900, store_fails = False\<rparr>
         (Chat (Some 2) (Some 1) (Some ''pong''))]))) (Some 2) (Some 1)
   \<and> map m_content (get_messages (db (snd (run (init_world True)
      [Message 7 \<lparr>now_db = 10, now_js = 10500, store_fails = False\<rparr>
         (Chat (Some 1) (Some 2) (Some ''ping'')),
       Message 8 \<lparr>now_db = 11, now_js = 11900, store_fails = False\<rparr>
         (Chat (Some 2) (Some 1) (Some ''pong''))]))) (Some 2) (Some 1))
     = [''ping'', ''pong'']"
  using history_symmetric
    [where x = "Some 1" and y = "Some 2" and a = 1 and b = 2
       and d = "db (snd (run (init_world True)
      [Message 7 \<lparr>now_db = 10, now_js = 10500, store_fails = False\<rparr>
         (Chat (Some 1) (Some 2) (Some ''ping'')),
       Message 8 \<lparr>now_db = 11, now_js = 11900, store_fails = False\<rparr>
         (Chat (Some 2) (Some 1) (Some ''pong''))]))"]
  by (simp add: init_world_def init_db_def insert_message_def clients_get_def
      get_messages_def sql_eq_def next_rowid_def)

section \<open>Failure of the store\<close>

text \<open>
  C6. If the write of a chat submission fails, because the store fails or because the
  content is null, the handler throws and leaves the state exactly as it found it: no
  row and no call of \<open>send\<close>. If the write succeeds, the handler throws nothing,
  whatever the registry holds for the receiver and whatever state the receiver's socket
  is in.
\<close>

theorem persistence_failure_is_fatal:
  "((store_fails e \<or> c = None) \<longrightarrow>
      fst (on_message w ws e (Chat s r c)) \<noteq> None
      \<and> snd (on_message w ws e (Chat s r c)) = w)
   \<and> ((\<not> store_fails e \<and> c \<noteq> None) \<longrightarrow>
      fst (on_message w ws e (Chat s r c)) = None
      \<and> length (messages (db (snd (on_message w ws e (Chat s r c)))))
          = Suc (length (messages (db w))))"
  by (auto simp: insert_message_def Let_def split: option.split)

theorem persistence_failure_is_fatal_witness:
  "fst (on_message (init_world True) 7 \<lparr>now_db = 10, now_js = 10500, store_fails = False\<rparr>
        (Chat (Some 1) (Some 2) None)) = Some SqliteConstraintNotNull
   \<and> snd (on_message (init_world True) 7 \<lparr>now_db = 10, now_js = 10500, store_fails = False\<rparr>
        (Chat (Some 1) (Some 2) None)) = init_world True
   \<and> fst (on_message (init_world True) 7 \<lparr>now_db = 10, now_js = 10500, store_fails = True\<rparr>
        (Chat (Some 1) (Some 2) (Some ''lost''))) = Some SqliteFailure
   \<and> snd (on_message (init_world True) 7 \<lparr>now_db = 10, now_js = 10500, store_fails = True\<rparr>
        (Chat (Some 1) (Some 2) (Some ''lost''))) = init_world True
   \<and> fst (on_message (init_world True) 7 \<lparr>now_db = 10, now_js = 10500, store_fails = False\<rparr>
        (Chat (Some 1) (Some 2) (Some ''kept''))) = None
   \<and> length (messages (db (snd (on_message (init_world True) 7
        \<lparr>now_db = 10, now_js = 10500, store_fails = False\<rparr>
        (Chat (Some 1) (Some 2) (Some ''kept''))))))
      = Suc (length (messages (db (init_world True))))"
  using persistence_failure_is_fatal
    [where w = "init_world True" and ws = 7 and s = "Some 1" and r = "Some 2"
       and c = None and e = "\<lparr>now_db = 10, now_js = 10500, store_fails = False\<rparr>"]
    persistence_failure_is_fatal
    [where w = "init_world True" and ws = 7 and s = "Some 1" and r = "Some 2"
       and c = "Some ''lost''" and e = "\<lparr>now_db = 10, now_js = 10500, store_fails = True\<rparr>"]
    persistence_failure_is_fatal
    [where w = "init_world True" and ws = 7 and s = "Some 1" and r = "Some 2"
       and c = "Some ''kept''" and e = "\<lparr>now_db = 10, now_js = 10500, store_fails = False\<rparr>"]
  by (simp add: insert_message_def clients_get_def init_world_def)

section \<open>Profile lookup\<close>

text \<open>
  C7. \<open>GET /api/friends/:id\<close>: if some user has that id and the role
  \<open>friend\<close>, the answer is such a user's row; under the primary key (ids are distinct)
  it is the row of the user with that id. If no user with that id has the role
  \<open>friend\<close>, which includes that no user has that id, the answer is the 404 body and
  never a row; so it is for a segment that spells no integer.
\<close>

theorem get_friend_found_or_404:
  "((\<exists>u \<in> set (users d). u_id u = i \<and> u_role u = friend) \<longrightarrow>
      (\<exists>u \<in> set (users d). u_id u = i \<and> u_role u = friend \<and> get_friend d (Some i) = Ok200 u))
   \<and> (distinct (map u_id (users d)) \<longrightarrow>
      (\<forall>u \<in> set (users d). u_id u = i \<and> u_role u = friend \<longrightarrow> get_friend d (Some i) = Ok200 u))
   \<and> ((\<forall>u \<in> set (users d). u_id u = i \<longrightarrow> u_role u \<noteq> friend) \<longrightarrow>
      get_friend d (Some i) = NotFound404 ''Friend not found'')
   \<and> get_friend d None = NotFound404 ''Friend not found''"
proof -
  let ?P = "\<lambda>u. u_id u = i \<and> u_role u = friend"
  have found: "\<exists>u \<in> set (users d). ?P u \<and> get_friend d (Some i) = Ok200 u"
    if "\<exists>u \<in> set (users d). ?P u"
  proof -
    from that obtain u where "u \<in> set (users d)" "?P u" "find ?P (users d) = Some u"
      using find_first_match [of "users d" ?P] by blast
    then show ?thesis by (auto simp: get_friend_Some)
  qed
  have the_one: "get_friend d (Some i) = Ok200 u"
    if "distinct (map u_id (users d))" "u \<in> set (users d)" "?P u" for u
  proof -
    have "\<forall>y \<in> set (users d). ?P y \<longrightarrow> u_id y = u_id u"
      using that(3) by simp
    with that have "find ?P (users d) = Some u"
      by (rule find_unique_key)
    then show ?thesis by (simp add: get_friend_Some)
  qed
  have absent: "get_friend d (Some i) = NotFound404 ''Friend not found''"
    if "\<forall>u \<in> set (users d). u_id u = i \<longrightarrow> u_role u \<noteq> friend"
  proof -
    from that have "\<forall>u \<in> set (users d). \<not> ?P u" by blast
    then have "find ?P (users d) = None" by (rule find_no_match)
    then show ?thesis by (simp add: get_friend_Some)
  qed
  show ?thesis
    using found the_one absent get_friend_None by blast
qed

theorem get_friend_found_or_404_witness:
  "distinct (map u_id (users (init_db True)))
   \<and> (\<exists>u \<in> set (users (init_db True)). u_id u = 1 \<and> u_role u = friend)
   \<and> (\<exists>u. get_friend (init_db True) (Some 1) = Ok200 u \<and> u_id u = 1 \<and> u_name u = ''Aarav'')
   \<and> get_friend (init_db True) (Some 999) = NotFound404 ''Friend not found''
   \<and> get_friend ((init_db True)\<lparr>users := [(hd seed_users)\<lparr>u_role := customer\<rparr>]\<rparr>) (Some 1)
       = NotFound404 ''Friend not found''"
proof -
  have d: "distinct (map u_id (users (init_db True)))"
    by (simp add: init_db_def seed_users_def)
  have m: "hd seed_users \<in> set (users (init_db True))"
    by (simp add: init_db_def seed_users_def)
  have p: "u_id (hd seed_users) = 1 \<and> u_role (hd seed_users) = friend
      \<and> u_name (hd seed_users) = ''Aarav''"
    by (simp add: seed_users_def)
  have a: "\<forall>u \<in> set (users (init_db True)). u_id u = 999 \<longrightarrow> u_role u \<noteq> friend"
    by (simp add: init_db_def seed_users_def)
  from d m p have "get_friend (init_db True) (Some 1) = Ok200 (hd seed_users)"
    using get_friend_found_or_404 [where d = "init_db True" and i = 1] by blast
  moreover from a have "get_friend (init_db True) (Some 999) = NotFound404 ''Friend not found''"
    using get_friend_found_or_404 [where d = "init_db True" and i = 999] by blast
  moreover have "get_friend ((init_db True)\<lparr>users := [(hd seed_users)\<lparr>u_role := customer\<rparr>]\<rparr>)
      (Some 1) = NotFound404 ''Friend not found''"
    using get_friend_found_or_404
      [where d = "(init_db True)\<lparr>users := [(hd seed_users)\<lparr>u_role := customer\<rparr>]\<rparr>"
         and i = 1]
    by simp
  ultimately show ?thesis using d m p by blast
qed

section \<open>Booking creation\<close>

text \<open>
  C8, as amended. \<open>POST /api/bookings\<close>, while the store accepts the write, with a
  \<open>customerId\<close> and a \<open>friendId\<close> that each are null or the id of a user (or with
  foreign keys not enforced): the table grows by exactly one row with the request's four
  values, status \<open>pending\<close> and the store's clock reading; the response carries the
  row's id; no other row has that id, and selecting by that id yields exactly that row.
\<close>

theorem booking_created:
  assumes "\<not> store_fails e" and "fk_ok d (customerId req)" and "fk_ok d (friendId req)"
  shows "\<exists>i row. post_bookings d e req = (Created i, d\<lparr>bookings := bookings d @ [row]\<rparr>)
    \<and> row = \<lparr>b_id = i, b_customer_id = customerId req, b_friend_id = friendId req,
              b_activity = activity req, b_duration = duration req,
              b_status = ''pending'', b_created_at = now_db e\<rparr>
    \<and> (\<forall>r \<in> set (bookings d). b_id r \<noteq> i)
    \<and> filter (\<lambda>r. b_id r = i) (bookings (snd (post_bookings d e req))) = [row]"
proof -
  let ?i = "next_rowid (map b_id (bookings d))"
  let ?row = "\<lparr>b_id = ?i, b_customer_id = customerId req, b_friend_id = friendId req,
              b_activity = activity req, b_duration = duration req,
              b_status = ''pending'', b_created_at = now_db e\<rparr>"
  have res: "post_bookings d e req = (Created ?i, d\<lparr>bookings := bookings d @ [?row]\<rparr>)"
    using assms by (simp add: post_bookings_def Let_def)
  have fresh: "\<forall>r \<in> set (bookings d). b_id r \<noteq> ?i"
    by (rule new_booking_fresh)
  then have "filter (\<lambda>r. b_id r = ?i) (bookings d) = []"
    by (rule filter_fresh_id)
  then have sel: "filter (\<lambda>r. b_id r = ?i) (bookings (snd (post_bookings d e req))) = [?row]"
    by (simp add: res)
  from res fresh sel show ?thesis by blast
qed

theorem booking_created_witness:
  "\<not> store_fails \<lparr>now_db = 10, now_js = 10500, store_fails = False\<rparr>
   \<and> fk_ok (init_db True) (Some 1) \<and> fk_ok (init_db True) (Some 2)
   \<and> fst (post_bookings (init_db True) \<lparr>now_db = 10, now_js = 10500, store_fails = False\<rparr>
      \<lparr>customerId = Some 1, friendId = Some 2, activity = Some ''Movie Partner'',
       duration = Some ''1 Hour''\<rparr>) = Created 1
   \<and> filter (\<lambda>r. b_id r = 1) (bookings (snd (post_bookings (init_db True)
      \<lparr>now_db = 10, now_js = 10500, store_fails = False\<rparr>
      \<lparr>customerId = Some 1, friendId = Some 2, activity = Some ''Movie Partner'',
       duration = Some ''1 Hour''\<rparr>)))
     = [\<lparr>b_id = 1, b_customer_id = Some 1, b_friend_id = Some 2,
         b_activity = Some ''Movie Partner'', b_duration = Some ''1 Hour'',
         b_status = ''pending'', b_created_at = 10\<rparr>]"
  using booking_created
    [where d = "init_db True" and e = "\<lparr>now_db = 10, now_js = 10500, store_fails = False\<rparr>"
       and req = "\<lparr>customerId = Some 1, friendId = Some 2, activity = Some ''Movie Partner'',
       duration = Some ''1 Hour''\<rparr>"]
  by (simp add: post_bookings_def fk_ok_def init_db_def seed_users_def next_rowid_def)

text \<open>
  With the foreign keys enforced, a booking for a customer who is no user is refused: the
  route answers with a server error and the table stays empty.
\<close>

theorem booking_counterexample:
  "post_bookings (init_db True) \<lparr>now_db = 10, now_js = 10500, store_fails = False\<rparr>
      \<lparr>customerId = Some 42, friendId = Some 2, activity = Some ''Movie Partner'',
       duration = Some ''1 Hour''\<rparr>
   = (ServerError SqliteConstraintForeignKey, init_db True)
   \<and> bookings (snd (post_bookings (init_db True)
        \<lparr>now_db = 10, now_js = 10500, store_fails = False\<rparr>
        \<lparr>customerId = Some 42, friendId = Some 2, activity = Some ''Movie Partner'',
         duration = Some ''1 Hour''\<rparr>)) = []"
  by (simp add: post_bookings_def fk_ok_def init_db_def seed_users_def)

section \<open>Closing a replaced connection\<close>

text \<open>
  C9. A user authenticates on connection \<open>c1\<close>, then on another connection
  \<open>c2\<close>, after which the registry binds the user to \<open>c2\<close>. When \<open>c1\<close> then
  closes, its handler deletes the binding by the user's identity: the lookup of the user
  yields nothing, although \<open>c2\<close> is still open and was the last to register.
\<close>

theorem close_of_stale_connection_unregisters:
  assumes "u \<noteq> 0" and "c1 \<noteq> c2"
  shows "fst (run w [Connection c1, Message c1 e1 (Auth (Some u)),
                     Connection c2, Message c2 e2 (Auth (Some u))]) = None
    \<and> clients (snd (run w [Connection c1, Message c1 e1 (Auth (Some u)),
                     Connection c2, Message c2 e2 (Auth (Some u))])) u = Some c2
    \<and> fst (run w [Connection c1, Message c1 e1 (Auth (Some u)),
                     Connection c2, Message c2 e2 (Auth (Some u)), Close c1]) = None
    \<and> clients (snd (run w [Connection c1, Message c1 e1 (Auth (Some u)),
                     Connection c2, Message c2 e2 (Auth (Some u)), Close c1])) u = None
    \<and> readyState (snd (run w [Connection c1, Message c1 e1 (Auth (Some u)),
                     Connection c2, Message c2 e2 (Auth (Some u)), Close c1])) c2 = OPEN
    \<and> userId (snd (run w [Connection c1, Message c1 e1 (Auth (Some u)),
                     Connection c2, Message c2 e2 (Auth (Some u)), Close c1])) c2 = Some u"
  using assms by (simp add: Let_def on_connection_def on_close_def)

theorem close_of_stale_connection_unregisters_witness:
  "(1::int) \<noteq> 0 \<and> (7::nat) \<noteq> 8
   \<and> clients (snd (run (init_world True)
        [Connection 7, Message 7 \<lparr>now_db = 10, now_js = 10500, store_fails = False\<rparr>
           (Auth (Some 1)),
         Connection 8, Message 8 \<lparr>now_db = 20, now_js = 20500, store_fails = False\<rparr>
           (Auth (Some 1))])) 1 = Some 8
   \<and> clients (snd (run (init_world True)
        [Connection 7, Message 7 \<lparr>now_db = 10, now_js = 10500, store_fails = False\<rparr>
           (Auth (Some 1)),
         Connection 8, Message 8 \<lparr>now_db = 20, now_js = 20500, store_fails = False\<rparr>
           (Auth (Some 1)), Close 7])) 1 = None
   \<and> readyState (snd (run (init_world True)
        [Connection 7, Message 7 \<lparr>now_db = 10, now_js = 10500, store_fails = False\<rparr>
           (Auth (Some 1)),
         Connection 8, Message 8 \<lparr>now_db = 20, now_js = 20500, store_fails = False\<rparr>
           (Auth (Some 1)), Close 7])) 8 = OPEN"
  using close_of_stale_connection_unregisters
    [where u = 1 and ?c1.0 = 7 and ?c2.0 = 8 and w = "init_world True"
       and ?e1.0 = "\<lparr>now_db = 10, now_js = 10500, store_fails = False\<rparr>"
       and ?e2.0 = "\<lparr>now_db = 20, now_js = 20500, store_fails = False\<rparr>"]
  by simp

section \<open>The creation time of a push\<close>

text \<open>
  C10. When a chat is stored and pushed to an open receiver, the row's \<open>created_at\<close>
  is the store's clock reading (seconds) and the payload's \<open>createdAt\<close> is a reading
  of the runtime's clock taken for the push (milliseconds); the payload does not carry
  the row's value. So there are executions, from every such state, in which the pushed
  \<open>createdAt\<close> is not the instant stored in \<open>created_at\<close>.
\<close>

theorem push_createdAt_is_fresh:
  assumes "\<not> store_fails e" and "clients w r = Some h" and "readyState w h = OPEN"
  shows "(\<exists>row p.
        messages (db (snd (on_message w ws e (Chat s (Some r) (Some c))))) = messages (db w) @ [row]
      \<and> sent (snd (on_message w ws e (Chat s (Some r) (Some c)))) = sent w @ [(h, p)]
      \<and> m_created_at row = now_db e \<and> p_createdAt p = now_js e)
    \<and> (\<exists>e' row p. \<not> store_fails e'
      \<and> messages (db (snd (on_message w ws e' (Chat s (Some r) (Some c))))) = messages (db w) @ [row]
      \<and> sent (snd (on_message w ws e' (Chat s (Some r) (Some c)))) = sent w @ [(h, p)]
      \<and> p_createdAt p \<noteq> 1000 * m_created_at row)"
proof -
  let ?e' = "\<lparr>now_db = 5, now_js = 5250, store_fails = False\<rparr>"
  have general: "\<And>e. \<not> store_fails e \<Longrightarrow> 
       messages (db (snd (on_message w ws e (Chat s (Some r) (Some c))))) = messages (db w) @
          [\<lparr>m_id = next_rowid (map m_id (messages (db w))), m_sender_id = s,
          m_receiver_id = Some r, m_content = c, m_created_at = now_db e\<rparr>]
      \<and> sent (snd (on_message w ws e (Chat s (Some r) (Some c)))) = sent w @
          [(h, \<lparr>p_type = ''chat'', p_senderId = s, p_content = Some c,
                           p_createdAt = now_js e\<rparr>)]"
    using assms(2,3) by (simp add: insert_message_ok Let_def clients_get_def)
  have first: "\<exists>row p.
        messages (db (snd (on_message w ws e (Chat s (Some r) (Some c))))) = messages (db w) @ [row]
      \<and> sent (snd (on_message w ws e (Chat s (Some r) (Some c)))) = sent w @ [(h, p)]
      \<and> m_created_at row = now_db e \<and> p_createdAt p = now_js e"
    using general [OF assms(1)] by simp
  have second: "\<exists>e' row p. \<not> store_fails e'
      \<and> messages (db (snd (on_message w ws e' (Chat s (Some r) (Some c))))) = messages (db w) @ [row]
      \<and> sent (snd (on_message w ws e' (Chat s (Some r) (Some c)))) = sent w @ [(h, p)]
      \<and> p_createdAt p \<noteq> 1000 * m_created_at row"
    using general [of ?e'] by (intro exI [of _ ?e']) simp
  from first second show ?thesis by (rule conjI)
qed

theorem push_createdAt_is_fresh_witness:
  "\<not> store_fails \<lparr>now_db = 5, now_js = 5250, store_fails = False\<rparr>
   \<and> clients (snd (run (init_world True)
        [Connection 7, Message 7 \<lparr>now_db = 4, now_js = 4000, store_fails = False\<rparr>
           (Auth (Some 2))])) 2 = Some 7
   \<and> readyState (snd (run (init_world True)
        [Connection 7, Message 7 \<lparr>now_db = 4, now_js = 4000, store_fails = False\<rparr>
           (Auth (Some 2))])) 7 = OPEN
   \<and> map m_created_at (messages (db (snd (on_message (snd (run (init_world True)
        [Connection 7, Message 7 \<lparr>now_db = 4, now_js = 4000, store_fails = False\<rparr>
           (Auth (Some 2))])) 8 \<lparr>now_db = 5, now_js = 5250, store_fails = False\<rparr>
        (Chat (Some 1) (Some 2) (Some ''hello'')))))) = [5]
   \<and> map (\<lambda>(h, p). p_createdAt p) (sent (snd (on_message (snd (run (init_world True)
        [Connection 7, Message 7 \<lparr>now_db = 4, now_js = 4000, store_fails = False\<rparr>
           (Auth (Some 2))])) 8 \<lparr>now_db = 5, now_js = 5250, store_fails = False\<rparr>
        (Chat (Some 1) (Some 2) (Some ''hello''))))) = [5250]"
  using push_createdAt_is_fresh
    [where e = "\<lparr>now_db = 5, now_js = 5250, store_fails = False\<rparr>"
       and w = "snd (run (init_world True)
        [Connection 7, Message 7 \<lparr>now_db = 4, now_js = 4000, store_fails = False\<rparr>
           (Auth (Some 2))])"
       and r = 2 and h = 7 and ws = 8 and s = "Some 1" and c = "''hello''"]
  by (simp add: init_world_def init_db_def on_connection_def insert_message_def
      clients_get_def)

end
